theory Spec2Isabelle
  imports Main "HOL-Library.Extended_Nat"
begin

section \<open>JavaScript values\<close>

text \<open>
  Values that reach the code from a JSON request body or from a decoded token payload.
  \<open>JUndefined\<close> is an absent property. \<open>JObj\<close> stands for any object or array (all of
  them are truthy; the code never looks inside one). Numbers are the integers; a
  fraction is truthy like every number but zero. \<open>truthy\<close> is the test that
  \<^verbatim>\<open>if (x)\<close> and \<^verbatim>\<open>!x\<close> perform.
\<close>

datatype jsval = JUndefined | JNull | JBool bool | JNum int | JStr string | JObj

fun truthy :: "jsval \<Rightarrow> bool" where
  "truthy JUndefined = False"
| "truthy JNull = False"
| "truthy (JBool b) = b"
| "truthy (JNum n) = (n \<noteq> 0)"
| "truthy (JStr s) = (s \<noteq> [])"
| "truthy JObj = True"

text \<open>
  \<^verbatim>\<open>s.split(c)\<close> for a one-character separator: the pieces between the occurrences of
  \<open>c\<close>, empty pieces included; the empty string splits into one empty piece.
\<close>

fun js_split :: "char \<Rightarrow> string \<Rightarrow> string list" where
  "js_split c [] = [[]]"
| "js_split c (x # xs) =
     (if x = c then [] # js_split c xs
      else (case js_split c xs of [] \<Rightarrow> [[x]] | w # ws \<Rightarrow> (x # w) # ws))"

text \<open>\<^verbatim>\<open>xs[i]\<close>: \<^verbatim>\<open>undefined\<close> (here \<open>None\<close>) beyond the end of the array.\<close>

definition js_index :: "'a list \<Rightarrow> nat \<Rightarrow> 'a option" where
  "js_index xs i = (if i < length xs then Some (xs ! i) else None)"

section \<open>The record store\<close>

text \<open>
  The three Mongoose models (models/department.js, models/employee.js and the task
  schema). An ObjectId is kept as its string. A collection is the list of its documents
  in the order the store returns them. The \<^verbatim>\<open>createdAt\<close>/\<^verbatim>\<open>updatedAt\<close> stamps that the
  \<^verbatim>\<open>timestamps\<close> option adds are maintained by Mongoose itself and are left out. A date
  is its number of milliseconds since the epoch.
\<close>

type_synonym oid = string

record department =
  d_id :: oid
  d_name :: string
  d_description :: string
  d_employees :: "oid list"

record employee =
  e_id :: oid
  e_name :: string
  e_email :: string
  e_password :: string
  e_role :: string
  e_departmentId :: oid
  e_phone :: "string option"
  e_address :: "string option"
  e_position :: "string option"

record task =
  t_id :: oid
  t_title :: string
  t_description :: string
  t_departmentId :: oid
  t_assignedTo :: oid
  t_status :: string
  t_dueDate :: int

record db =
  departments :: "department list"
  employees :: "employee list"
  tasks :: "task list"

text \<open>What a handler throws, and what it sends.\<close>

datatype exn = Error string | ValidationError | CastError

text \<open>
  \<^verbatim>\<open>err.message === m\<close>. The messages of Mongoose's validation and cast errors are
  generated by the library (they start with the model or the type name) and are never
  the message of an \<^verbatim>\<open>Error\<close> the routes throw themselves.
\<close>

fun message_is :: "exn \<Rightarrow> string \<Rightarrow> bool" where
  "message_is (Error m') m = (m' = m)"
| "message_is ValidationError m = False"
| "message_is CastError m = False"

text \<open>
  The JSON bodies the routes send: \<^verbatim>\<open>{message}\<close>, \<^verbatim>\<open>{message, error}\<close>,
  \<^verbatim>\<open>{error: err.message}\<close> and a task document.
\<close>

datatype reply =
    Message string
  | MessageError string string
  | ErrorOf exn
  | TaskJson task

datatype response = Response nat reply

subsection \<open>Queries\<close>

text \<open>\<^verbatim>\<open>findDepartmentByName\<close>: the first department of that name, or it throws.\<close>

definition findDepartmentByName :: "db \<Rightarrow> string \<Rightarrow> exn + department" where
  "findDepartmentByName s departmentName =
     (case find (\<lambda>d. d_name d = departmentName) (departments s) of
        None \<Rightarrow> Inl (Error ''Department not found'')
      | Some department \<Rightarrow> Inr department)"

text \<open>\<^verbatim>\<open>Employee.find({ departmentId })\<close> and \<^verbatim>\<open>Employee.findById(id)\<close>.\<close>

definition Employee_find :: "db \<Rightarrow> oid \<Rightarrow> employee list" where
  "Employee_find s departmentId = filter (\<lambda>e. e_departmentId e = departmentId) (employees s)"

definition Employee_findById :: "db \<Rightarrow> oid \<Rightarrow> employee option" where
  "Employee_findById s i = find (\<lambda>e. e_id e = i) (employees s)"

text \<open>
  \<^verbatim>\<open>Task.countDocuments({ assignedTo })\<close> and
  \<^verbatim>\<open>Task.countDocuments({ assignedTo, status: { $in: ['pending', 'in-progress'] } })\<close>.
\<close>

definition totalTasks :: "db \<Rightarrow> employee \<Rightarrow> nat" where
  "totalTasks s e = length (filter (\<lambda>t. t_assignedTo t = e_id e) (tasks s))"

definition pendingTasks :: "db \<Rightarrow> employee \<Rightarrow> nat" where
  "pendingTasks s e =
     length (filter (\<lambda>t. t_assignedTo t = e_id e \<and> t_status t \<in> set [''pending'', ''in-progress''])
       (tasks s))"

section \<open>The task assignment selector\<close>

text \<open>
  The three variables of the loop in \<^verbatim>\<open>selectEmployee\<close>; the two minima start at
  \<^verbatim>\<open>Infinity\<close>.
\<close>

record selection =
  selectedEmployee :: "employee option"
  minTaskCount :: enat
  minPendingTasks :: enat

definition selection_init :: selection where
  "selection_init = \<lparr>selectedEmployee = None, minTaskCount = \<infinity>, minPendingTasks = \<infinity>\<rparr>"

text \<open>One iteration of \<^verbatim>\<open>for (const employee of employees)\<close>.\<close>

definition select_step :: "db \<Rightarrow> selection \<Rightarrow> employee \<Rightarrow> selection" where
  "select_step s v employee =
     (let total = totalTasks s employee; pending = pendingTasks s employee in
      if enat total < minTaskCount v \<or> (enat total = minTaskCount v \<and> enat pending < minPendingTasks v)
      then \<lparr>selectedEmployee = Some employee, minTaskCount = enat total, minPendingTasks = enat pending\<rparr>
      else v)"

fun select_loop :: "db \<Rightarrow> employee list \<Rightarrow> selection \<Rightarrow> selection" where
  "select_loop s [] v = v"
| "select_loop s (employee # rest) v = select_loop s rest (select_step s v employee)"

text \<open>
  \<^verbatim>\<open>selectEmployee(departmentId)\<close>: \<open>None\<close> is \<^verbatim>\<open>null\<close>. The last case is the
  fallback \<^verbatim>\<open>if (!selectedEmployee) selectedEmployee = employees[0]\<close>.
\<close>

definition selectEmployee :: "db \<Rightarrow> oid \<Rightarrow> employee option" where
  "selectEmployee s departmentId =
     (case Employee_find s departmentId of
        [] \<Rightarrow> None
      | first # rest \<Rightarrow>
          (case selectedEmployee (select_loop s (first # rest) selection_init) of
             Some chosen \<Rightarrow> Some chosen
           | None \<Rightarrow> Some first))"

text \<open>
  The load of an employee as the loop compares it: fewer tasks in all, or as many and
  fewer of them pending or in progress.
\<close>

definition load_less :: "db \<Rightarrow> employee \<Rightarrow> employee \<Rightarrow> bool" where
  "load_less s a b \<longleftrightarrow>
     totalTasks s a < totalTasks s b \<or>
     (totalTasks s a = totalTasks s b \<and> pendingTasks s a < pendingTasks s b)"

definition load_le :: "db \<Rightarrow> employee \<Rightarrow> employee \<Rightarrow> bool" where
  "load_le s a b \<longleftrightarrow>
     totalTasks s a < totalTasks s b \<or>
     (totalTasks s a = totalTasks s b \<and> pendingTasks s a \<le> pendingTasks s b)"

text \<open>
  The invariant of the loop once an employee is selected: the two minima are the
  counts of the selected employee.
\<close>

definition tracks :: "db \<Rightarrow> selection \<Rightarrow> employee \<Rightarrow> bool" where
  "tracks s v c \<longleftrightarrow>
     selectedEmployee v = Some c \<and> minTaskCount v = enat (totalTasks s c) \<and>
     minPendingTasks v = enat (pendingTasks s c)"

section \<open>The token service and the two gates\<close>

text \<open>
  The payload that \<^verbatim>\<open>generateToken\<close> is given at login, and the claims that
  \<^verbatim>\<open>jwt.verify\<close> decodes: the payload with the issue and expiry stamps.
\<close>

record payload =
  userId :: string
  email :: string
  isAdmin :: jsval

record decoded = payload +
  c_iat :: int
  c_exp :: int

text \<open>
  The jsonwebtoken package is not part of the repository; its two functions are
  parameters of the model. \<open>jwt_sign payload secret expiresIn clock\<close> and
  \<open>jwt_verify token secret clock\<close> return \<open>Inl\<close> of the error's message where the
  package throws. \<open>secret\<close> is \<^verbatim>\<open>process.env.JWT_SECRET\<close>, which may be unset, and
  \<open>clock\<close> the time of the call in seconds.
\<close>

record jsonwebtoken =
  jwt_sign :: "payload \<Rightarrow> string option \<Rightarrow> string \<Rightarrow> int \<Rightarrow> string + string"
  jwt_verify :: "string \<Rightarrow> string option \<Rightarrow> int \<Rightarrow> string + decoded"

text \<open>
  Modelled from the spec: the contract of \<^verbatim>\<open>jwt.sign\<close> and \<^verbatim>\<open>jwt.verify\<close> of the
  jsonwebtoken package, which is not part of the repository, for the one-hour tokens
  that the token service issues. A token signed at the time \<open>issued\<close> with
  \<^verbatim>\<open>expiresIn: '1h'\<close> is in the compact form that the header
  \<^verbatim>\<open>Authorization: Bearer <token>\<close> carries (not empty, no space); verified under the
  same secret before \<open>issued + 3600\<close> it decodes to the signed payload with the issue
  time and the expiry one hour later.
\<close>

definition jwt_contract :: "jsonwebtoken \<Rightarrow> bool" where
  "jwt_contract jwt \<longleftrightarrow>
     (\<forall>p secret issued token clock.
        jwt_sign jwt p secret ''1h'' issued = Inr token \<longrightarrow>
          token \<noteq> [] \<and> CHR '' '' \<notin> set token \<and>
          (clock < issued + 3600 \<longrightarrow>
             jwt_verify jwt token secret clock =
               Inr (payload.extend p (decoded.fields issued (issued + 3600)))))"

definition generateToken :: "jsonwebtoken \<Rightarrow> string option \<Rightarrow> int \<Rightarrow> payload \<Rightarrow> string + string" where
  "generateToken jwt secret clock p = jwt_sign jwt p secret ''1h'' clock"

text \<open>The expression \<^verbatim>\<open>authHeader.split(' ')[1]\<close> of both middlewares.\<close>

definition header_token :: "string \<Rightarrow> string option" where
  "header_token authHeader = js_index (js_split (CHR '' '') authHeader) 1"

text \<open>
  A middleware either sends a response (\<open>Inl\<close>; \<^verbatim>\<open>next\<close> is not called) or calls
  \<^verbatim>\<open>next()\<close> with the decoded claims in \<^verbatim>\<open>req.user\<close> (\<open>Inr\<close>). Its argument is
  \<^verbatim>\<open>req.header('Authorization')\<close>. The tests \<^verbatim>\<open>!authHeader\<close> and \<^verbatim>\<open>!token\<close> hold
  for \<^verbatim>\<open>undefined\<close> and for the empty string.
\<close>

definition jwtAuthMiddleware ::
    "jsonwebtoken \<Rightarrow> string option \<Rightarrow> int \<Rightarrow> string option \<Rightarrow> response + decoded" where
  "jwtAuthMiddleware jwt secret clock authorization =
     (case authorization of
        None \<Rightarrow> Inl (Response 401 (Message ''Access denied. No token provided.''))
      | Some authHeader \<Rightarrow>
          if authHeader = [] then Inl (Response 401 (Message ''Access denied. No token provided.''))
          else
            (case header_token authHeader of
               None \<Rightarrow> Inl (Response 401 (Message ''Access denied. Invalid token format.''))
             | Some token \<Rightarrow>
                 if token = [] then Inl (Response 401 (Message ''Access denied. Invalid token format.''))
                 else
                   (case jwt_verify jwt token secret clock of
                      Inl err \<Rightarrow> Inl (Response 401 (Message ''Invalid token.''))
                    | Inr claims \<Rightarrow> Inr claims)))"

text \<open>
  \<^verbatim>\<open>req.header('Authorization')?.split(' ')[1]\<close>: the optional chaining gives
  \<^verbatim>\<open>undefined\<close> for an absent header.
\<close>

definition adminAuthMiddleware ::
    "jsonwebtoken \<Rightarrow> string option \<Rightarrow> int \<Rightarrow> string option \<Rightarrow> response + decoded" where
  "adminAuthMiddleware jwt secret clock authorization =
     (case (case authorization of None \<Rightarrow> None | Some authHeader \<Rightarrow> header_token authHeader) of
        None \<Rightarrow> Inl (Response 401 (Message ''Access denied. No token provided.''))
      | Some token \<Rightarrow>
          if token = [] then Inl (Response 401 (Message ''Access denied. No token provided.''))
          else
            (case jwt_verify jwt token secret clock of
               Inl err \<Rightarrow> Inl (Response 400 (MessageError ''Invalid token'' err))
             | Inr claims \<Rightarrow>
                 if truthy (isAdmin claims) then Inr claims
                 else Inl (Response 403 (Message ''Access denied. Admins only.''))))"

text \<open>
  \<^verbatim>\<open>router.METHOD(path, middleware, handler)\<close>: the handler runs only when the
  middleware called \<^verbatim>\<open>next()\<close>; otherwise the middleware's response is the route's and
  the store is untouched.
\<close>

definition guarded :: "response + decoded \<Rightarrow> response \<times> db \<Rightarrow> db \<Rightarrow> response \<times> db" where
  "guarded gate handler s = (case gate of Inl r \<Rightarrow> (r, s) | Inr user \<Rightarrow> handler)"

section \<open>The task routes\<close>

text \<open>
  What the handlers read of a request: the authorization header, the path parameters
  and the four properties of the JSON body.
\<close>

record request =
  req_authorization :: "string option"
  req_departmentName :: string
  req_taskId :: string
  req_title :: jsval
  req_description :: jsval
  req_status :: jsval
  req_dueDate :: jsval

text \<open>
  Mongoose's casts, JavaScript's \<^verbatim>\<open>new Date(v)\<close> and Luxon's date arithmetic are not
  part of the repository and are parameters: the cast of a value to a \<^verbatim>\<open>String\<close> path,
  the cast of a path parameter to an ObjectId, and the date a value denotes; \<open>None\<close> is a
  failed cast or an invalid date. \<open>plusDays now n\<close> is
  \<^verbatim>\<open>DateTime.now().plus({ days: n }).toJSDate()\<close> where \<open>now\<close> is the reading of
  \<^verbatim>\<open>DateTime.now()\<close>, both in milliseconds since the epoch: Luxon adds calendar days
  in the zone of the server.
\<close>

record externals =
  castString :: "jsval \<Rightarrow> string option"
  castObjectId :: "string \<Rightarrow> oid option"
  newDate :: "jsval \<Rightarrow> int option"
  plusDays :: "int \<Rightarrow> int \<Rightarrow> int"

text \<open>
  A \<^verbatim>\<open>String\<close> path with \<^verbatim>\<open>required: true\<close>: validation fails when the value is
  absent, \<^verbatim>\<open>null\<close>, not castable or the empty string.
\<close>

definition required_string :: "externals \<Rightarrow> jsval \<Rightarrow> exn + string" where
  "required_string x v =
     (case v of
        JUndefined \<Rightarrow> Inl ValidationError
      | JNull \<Rightarrow> Inl ValidationError
      | _ \<Rightarrow>
          (case castString x v of
             None \<Rightarrow> Inl ValidationError
           | Some str \<Rightarrow> if str = [] then Inl ValidationError else Inr str))"

text \<open>
  \<^verbatim>\<open>new Task({ title, description, departmentId, assignedTo, dueDate })\<close> followed by
  \<^verbatim>\<open>task.save()\<close>: the schema's validation, with the default status. \<open>fresh\<close> is the
  ObjectId the constructor generates.
\<close>

definition new_Task :: "externals \<Rightarrow> oid \<Rightarrow> jsval \<Rightarrow> jsval \<Rightarrow> oid \<Rightarrow> oid \<Rightarrow> int \<Rightarrow> exn + task" where
  "new_Task x fresh title description departmentId assignedTo dueDate =
     (case required_string x title of
        Inl err \<Rightarrow> Inl err
      | Inr ti \<Rightarrow>
          (case required_string x description of
             Inl err \<Rightarrow> Inl err
           | Inr de \<Rightarrow>
               Inr \<lparr>t_id = fresh, t_title = ti, t_description = de, t_departmentId = departmentId,
                    t_assignedTo = assignedTo, t_status = ''pending'', t_dueDate = dueDate\<rparr>))"

subsection \<open>POST /:departmentName/task\<close>

text \<open>The body of the \<^verbatim>\<open>try\<close> block; \<open>now\<close> is the reading of \<^verbatim>\<open>DateTime.now()\<close>.\<close>

definition post_task_try :: "externals \<Rightarrow> int \<Rightarrow> oid \<Rightarrow> request \<Rightarrow> db \<Rightarrow> exn + response \<times> db" where
  "post_task_try x now fresh req s =
     (let dueDate = plusDays x now 7 in
      case findDepartmentByName s (req_departmentName req) of
        Inl err \<Rightarrow> Inl err
      | Inr department \<Rightarrow>
          (case selectEmployee s (d_id department) of
             None \<Rightarrow> Inr (Response 500 (Message ''Unable to assign task''), s)
           | Some chosen \<Rightarrow>
               (case new_Task x fresh (req_title req) (req_description req)
                       (d_id department) (e_id chosen) dueDate of
                  Inl err \<Rightarrow> Inl err
                | Inr task \<Rightarrow> Inr (Response 201 (TaskJson task), s\<lparr>tasks := tasks s @ [task]\<rparr>))))"

definition post_task :: "externals \<Rightarrow> int \<Rightarrow> oid \<Rightarrow> request \<Rightarrow> db \<Rightarrow> response \<times> db" where
  "post_task x now fresh req s =
     (case post_task_try x now fresh req s of
        Inr result \<Rightarrow> result
      | Inl err \<Rightarrow>
          if message_is err ''Department not found''
          then (Response 404 (Message ''Department not found''), s)
          else (Response 500 (ErrorOf err), s))"

definition route_post_task ::
    "jsonwebtoken \<Rightarrow> string option \<Rightarrow> int \<Rightarrow> externals \<Rightarrow> int \<Rightarrow> oid \<Rightarrow> request \<Rightarrow> db \<Rightarrow> response \<times> db" where
  "route_post_task jwt secret clock x now fresh req s =
     guarded (jwtAuthMiddleware jwt secret clock (req_authorization req)) (post_task x now fresh req s) s"

subsection \<open>PUT /:departmentName/task/:taskId\<close>

text \<open>
  The paths of the document that the four guarded assignments modify. An assignment
  casts its value; a failed cast, an empty required string, a status outside the enum or
  an invalid date makes \<^verbatim>\<open>task.save()\<close> throw.
\<close>

record modified =
  m_title :: "string option"
  m_description :: "string option"
  m_status :: "string option"
  m_dueDate :: "int option"

definition assign_string :: "externals \<Rightarrow> jsval \<Rightarrow> exn + string option" where
  "assign_string x v =
     (if truthy v then
        (case castString x v of
           None \<Rightarrow> Inl ValidationError
         | Some str \<Rightarrow> if str = [] then Inl ValidationError else Inr (Some str))
      else Inr None)"

definition assign_status :: "externals \<Rightarrow> jsval \<Rightarrow> exn + string option" where
  "assign_status x v =
     (if truthy v then
        (case castString x v of
           None \<Rightarrow> Inl ValidationError
         | Some str \<Rightarrow>
             if str \<in> set [''pending'', ''in-progress'', ''completed''] then Inr (Some str)
             else Inl ValidationError)
      else Inr None)"

definition assign_date :: "externals \<Rightarrow> jsval \<Rightarrow> exn + int option" where
  "assign_date x v =
     (if truthy v then
        (case newDate x v of None \<Rightarrow> Inl ValidationError | Some d \<Rightarrow> Inr (Some d))
      else Inr None)"

definition assignments :: "externals \<Rightarrow> request \<Rightarrow> exn + modified" where
  "assignments x req =
     (case assign_string x (req_title req) of
        Inl err \<Rightarrow> Inl err
      | Inr ti \<Rightarrow>
          (case assign_string x (req_description req) of
             Inl err \<Rightarrow> Inl err
           | Inr de \<Rightarrow>
               (case assign_status x (req_status req) of
                  Inl err \<Rightarrow> Inl err
                | Inr st \<Rightarrow>
                    (case assign_date x (req_dueDate req) of
                       Inl err \<Rightarrow> Inl err
                     | Inr du \<Rightarrow>
                         Inr \<lparr>m_title = ti, m_description = de, m_status = st, m_dueDate = du\<rparr>))))"

definition apply_modified :: "modified \<Rightarrow> task \<Rightarrow> task" where
  "apply_modified m t =
     t\<lparr>t_title := (case m_title m of None \<Rightarrow> t_title t | Some v \<Rightarrow> v),
       t_description := (case m_description m of None \<Rightarrow> t_description t | Some v \<Rightarrow> v),
       t_status := (case m_status m of None \<Rightarrow> t_status t | Some v \<Rightarrow> v),
       t_dueDate := (case m_dueDate m of None \<Rightarrow> t_dueDate t | Some v \<Rightarrow> v)\<rparr>"

text \<open>
  \<^verbatim>\<open>updateOne\<close> and \<^verbatim>\<open>findOneAndDelete\<close> act on the first document that matches.
  Saving an existing document sets its modified paths in the stored document of the
  same \<^verbatim>\<open>_id\<close>.
\<close>

fun update_first :: "('a \<Rightarrow> bool) \<Rightarrow> ('a \<Rightarrow> 'a) \<Rightarrow> 'a list \<Rightarrow> 'a list" where
  "update_first P f [] = []"
| "update_first P f (y # ys) = (if P y then f y # ys else y # update_first P f ys)"

fun remove_first :: "('a \<Rightarrow> bool) \<Rightarrow> 'a list \<Rightarrow> 'a list" where
  "remove_first P [] = []"
| "remove_first P (y # ys) = (if P y then ys else y # remove_first P ys)"

text \<open>\<^verbatim>\<open>Task.findOne({ _id: taskId, departmentId })\<close>; the cast of \<^verbatim>\<open>taskId\<close> may throw.\<close>

definition Task_findOne :: "externals \<Rightarrow> db \<Rightarrow> string \<Rightarrow> oid \<Rightarrow> exn + task option" where
  "Task_findOne x s taskId departmentId =
     (case castObjectId x taskId of
        None \<Rightarrow> Inl CastError
      | Some i \<Rightarrow> Inr (find (\<lambda>t. t_id t = i \<and> t_departmentId t = departmentId) (tasks s)))"

definition put_task_try :: "externals \<Rightarrow> request \<Rightarrow> db \<Rightarrow> exn + response \<times> db" where
  "put_task_try x req s =
     (case findDepartmentByName s (req_departmentName req) of
        Inl err \<Rightarrow> Inl err
      | Inr department \<Rightarrow>
          (case Task_findOne x s (req_taskId req) (d_id department) of
             Inl err \<Rightarrow> Inl err
           | Inr None \<Rightarrow> Inr (Response 404 (Message ''Task not found in this department''), s)
           | Inr (Some task) \<Rightarrow>
               (case assignments x req of
                  Inl err \<Rightarrow> Inl err
                | Inr m \<Rightarrow>
                    Inr (Response 200 (TaskJson (apply_modified m task)),
                         s\<lparr>tasks := update_first (\<lambda>t. t_id t = t_id task) (apply_modified m) (tasks s)\<rparr>))))"

definition put_task :: "externals \<Rightarrow> request \<Rightarrow> db \<Rightarrow> response \<times> db" where
  "put_task x req s =
     (case put_task_try x req s of
        Inr result \<Rightarrow> result
      | Inl err \<Rightarrow> (Response 500 (ErrorOf err), s))"

definition route_put_task ::
    "jsonwebtoken \<Rightarrow> string option \<Rightarrow> int \<Rightarrow> externals \<Rightarrow> request \<Rightarrow> db \<Rightarrow> response \<times> db" where
  "route_put_task jwt secret clock x req s =
     guarded (jwtAuthMiddleware jwt secret clock (req_authorization req)) (put_task x req s) s"

subsection \<open>DELETE /:departmentName/task/:taskId\<close>

definition delete_task_try :: "externals \<Rightarrow> request \<Rightarrow> db \<Rightarrow> exn + response \<times> db" where
  "delete_task_try x req s =
     (case findDepartmentByName s (req_departmentName req) of
        Inl err \<Rightarrow> Inl err
      | Inr department \<Rightarrow>
          (case Task_findOne x s (req_taskId req) (d_id department) of
             Inl err \<Rightarrow> Inl err
           | Inr None \<Rightarrow> Inr (Response 404 (Message ''Task not found in this department''), s)
           | Inr (Some task) \<Rightarrow>
               Inr (Response 200 (Message ''Task deleted successfully''),
                    s\<lparr>tasks := remove_first
                       (\<lambda>t. t_id t = t_id task \<and> t_departmentId t = d_id department) (tasks s)\<rparr>)))"

definition delete_task :: "externals \<Rightarrow> request \<Rightarrow> db \<Rightarrow> response \<times> db" where
  "delete_task x req s =
     (case delete_task_try x req s of
        Inr result \<Rightarrow> result
      | Inl err \<Rightarrow> (Response 500 (ErrorOf err), s))"

definition route_delete_task ::
    "jsonwebtoken \<Rightarrow> string option \<Rightarrow> int \<Rightarrow> externals \<Rightarrow> request \<Rightarrow> db \<Rightarrow> response \<times> db" where
  "route_delete_task jwt secret clock x req s =
     guarded (adminAuthMiddleware jwt secret clock (req_authorization req)) (delete_task x req s) s"

section \<open>Password hashing\<close>





section \<open>Example data\<close>

text \<open>
  The worked example of the specification: the department Engineering with the
  employees E1 (two tasks, one of them pending) and E2 (two tasks, none pending), and a
  department without employees.
\<close>

definition Engineering :: department where
  "Engineering = \<lparr>d_id = ''d1'', d_name = ''Engineering'', d_description = ''Builds'', d_employees = []\<rparr>"

definition Research :: department where
  "Research = \<lparr>d_id = ''d2'', d_name = ''Research'', d_description = ''Reads'', d_employees = []\<rparr>"

definition E1 :: employee where
  "E1 = \<lparr>e_id = ''e1'', e_name = ''Asha'', e_email = ''asha@example.org'', e_password = ''$2b$10$h1'',
          e_role = ''employee'', e_departmentId = ''d1'', e_phone = None, e_address = None,
          e_position = None\<rparr>"

definition E2 :: employee where
  "E2 = \<lparr>e_id = ''e2'', e_name = ''Ravi'', e_email = ''ravi@example.org'', e_password = ''$2b$10$h2'',
          e_role = ''employee'', e_departmentId = ''d1'', e_phone = None, e_address = None,
          e_position = None\<rparr>"

definition example_task :: "oid \<Rightarrow> oid \<Rightarrow> string \<Rightarrow> task" where
  "example_task i assignee st =
     \<lparr>t_id = i, t_title = ''Report'', t_description = ''Quarterly'', t_departmentId = ''d1'',
      t_assignedTo = assignee, t_status = st, t_dueDate = 0\<rparr>"

definition example_db :: db where
  "example_db =
     \<lparr>departments = [Engineering, Research],
      employees = [E1, E2],
      tasks = [example_task ''t1'' ''e1'' ''pending'', example_task ''t2'' ''e1'' ''completed'',
               example_task ''t3'' ''e2'' ''completed'', example_task ''t4'' ''e2'' ''completed'']\<rparr>"

text \<open>
  A stand-in for the token package that issues two tokens only, at time 0 and for one
  hour: the one of an employee and the one of an administrator.
\<close>

definition user_payload :: payload where
  "user_payload = \<lparr>userId = ''e1'', email = ''asha@example.org'', isAdmin = JBool False\<rparr>"

definition admin_payload :: payload where
  "admin_payload = \<lparr>userId = ''a1'', email = ''root@example.org'', isAdmin = JBool True\<rparr>"

definition example_jwt :: jsonwebtoken where
  "example_jwt =
     \<lparr>jwt_sign = (\<lambda>p secret expiresIn clock.
         if secret = None then Inl ''secretOrPrivateKey must have a value''
         else if expiresIn \<noteq> ''1h'' \<or> clock \<noteq> 0 then Inl ''not issued by the stand-in''
         else if p = user_payload then Inr ''hdr.user.sig''
         else if p = admin_payload then Inr ''hdr.admin.sig''
         else Inl ''not issued by the stand-in''),
      jwt_verify = (\<lambda>token secret clock.
         if secret = None then Inl ''secret or public key must be provided''
         else if token = ''hdr.user.sig'' \<or> token = ''hdr.admin.sig'' then
           (if clock < 3600 then
              Inr (payload.extend (if token = ''hdr.user.sig'' then user_payload else admin_payload)
                     (decoded.fields 0 3600))
            else Inl ''jwt expired'')
         else Inl ''jwt malformed'')\<rparr>"

text \<open>
  Stand-ins for the casts and for Luxon: strings cast to themselves, numbers are dates,
  and the server runs in UTC, where a calendar day is 86400000 milliseconds.
\<close>

definition example_externals :: externals where
  "example_externals =
     \<lparr>castString = (\<lambda>v. case v of JStr str \<Rightarrow> Some str | _ \<Rightarrow> None),
      castObjectId = (\<lambda>i. if i = [] then None else Some i),
      newDate = (\<lambda>v. case v of JNum n \<Rightarrow> Some n | _ \<Rightarrow> None),
      plusDays = (\<lambda>now n. now + n * 86400000)\<rparr>"

definition example_request :: request where
  "example_request =
     \<lparr>req_authorization = Some ''Bearer hdr.user.sig'', req_departmentName = ''Engineering'',
      req_taskId = ''t1'', req_title = JStr ''Audit'', req_description = JStr ''Yearly'',
      req_status = JUndefined, req_dueDate = JUndefined\<rparr>"

text \<open>
  The task that creating \<^verbatim>\<open>Audit\<close> in Engineering at time 1000 stores, and the first
  task of the example after the example request has updated it.
\<close>

definition example_created :: task where
  "example_created =
     \<lparr>t_id = ''t9'', t_title = ''Audit'', t_description = ''Yearly'', t_departmentId = ''d1'',
      t_assignedTo = ''e2'', t_status = ''pending'', t_dueDate = 604801000\<rparr>"

definition example_updated :: task where
  "example_updated =
     \<lparr>t_id = ''t1'', t_title = ''Audit'', t_description = ''Yearly'', t_departmentId = ''d1'',
      t_assignedTo = ''e1'', t_status = ''pending'', t_dueDate = 0\<rparr>"






section \<open>Properties of the selector\<close>

subsection \<open>The comparison is a total preorder\<close>

lemma load_le_refl: "load_le s a a"
  by (simp add: load_le_def)

lemma load_less_le: "load_less s a b \<Longrightarrow> load_le s a b"
  by (auto simp: load_less_def load_le_def)

lemma not_load_less: "\<not> load_less s a b \<longleftrightarrow> load_le s b a"
  by (auto simp: load_less_def load_le_def)

lemma load_less_le_trans: "load_less s a b \<Longrightarrow> load_le s b c \<Longrightarrow> load_less s a c"
  by (auto simp: load_less_def load_le_def)

lemma load_le_less_trans: "load_le s a b \<Longrightarrow> load_less s b c \<Longrightarrow> load_less s a c"
  by (auto simp: load_less_def load_le_def)

lemma load_le_trans: "load_le s a b \<Longrightarrow> load_le s b c \<Longrightarrow> load_le s a c"
  by (auto simp: load_less_def load_le_def)

subsection \<open>The loop\<close>

lemma select_step_init: "tracks s (select_step s selection_init e) e"
  by (simp add: select_step_def selection_init_def tracks_def Let_def)

lemma select_step_tracks:
  assumes "tracks s v c"
  shows "select_step s v e = (if load_less s e c then
      \<lparr>selectedEmployee = Some e, minTaskCount = enat (totalTasks s e), minPendingTasks = enat (pendingTasks s e)\<rparr> else v)"
  using assms by (auto simp: select_step_def tracks_def load_less_def Let_def)

lemma select_loop_tracks:
  assumes "tracks s v c"
  shows "\<exists>r. tracks s (select_loop s es v) r \<and> load_le s r c \<and> (\<forall>e \<in> set es. load_le s r e) \<and>
     (r = c \<or> (\<exists>i < length es. r = es ! i \<and> load_less s r c \<and> (\<forall>j < i. load_less s r (es ! j))))"
  using assms
proof (induction es arbitrary: v c)
  case Nil
  then show ?case by (auto simp: load_le_refl)
next
  case (Cons e es)
  show ?case
  proof (cases "load_less s e c")
    case True
    then have "tracks s (select_step s v e) e"
      using Cons.prems by (simp add: select_step_tracks tracks_def)
    from Cons.IH [OF this] obtain r where
      r: "tracks s (select_loop s es (select_step s v e)) r" "load_le s r e"
         "\<forall>x \<in> set es. load_le s r x"
         "r = e \<or> (\<exists>i < length es. r = es ! i \<and> load_less s r e \<and> (\<forall>j < i. load_less s r (es ! j)))"
      by blast
    have rc: "load_less s r c" using r(2) True by (rule load_le_less_trans)
    from r(4) have "\<exists>i < length (e # es). r = (e # es) ! i \<and> (\<forall>j < i. load_less s r ((e # es) ! j))"
    proof
      assume "r = e"
      then show ?thesis by (intro exI [of _ 0]) simp
    next
      assume "\<exists>i < length es. r = es ! i \<and> load_less s r e \<and> (\<forall>j < i. load_less s r (es ! j))"
      then obtain i where i: "i < length es" "r = es ! i" "load_less s r e" "\<forall>j < i. load_less s r (es ! j)"
        by blast
      have "\<forall>j < Suc i. load_less s r ((e # es) ! j)"
        using i(3,4) by (auto simp: nth_Cons split: nat.splits)
      with i(1,2) show ?thesis by (intro exI [of _ "Suc i"]) simp
    qed
    with r rc show ?thesis by (auto simp: load_less_le)
  next
    case False
    then have same: "select_step s v e = v"
      using Cons.prems by (simp add: select_step_tracks)
    from Cons.IH [OF Cons.prems] obtain r where
      r: "tracks s (select_loop s es v) r" "load_le s r c"
         "\<forall>x \<in> set es. load_le s r x"
         "r = c \<or> (\<exists>i < length es. r = es ! i \<and> load_less s r c \<and> (\<forall>j < i. load_less s r (es ! j)))"
      by blast
    from False have ce: "load_le s c e" by (simp add: not_load_less)
    have re: "load_le s r e" using r(2) ce by (rule load_le_trans)
    from r(4) have "r = c \<or> (\<exists>i < length (e # es). r = (e # es) ! i \<and> load_less s r c \<and> (\<forall>j < i. load_less s r ((e # es) ! j)))"
    proof
      assume "r = c" then show ?thesis by simp
    next
      assume "\<exists>i < length es. r = es ! i \<and> load_less s r c \<and> (\<forall>j < i. load_less s r (es ! j))"
      then obtain i where i: "i < length es" "r = es ! i" "load_less s r c" "\<forall>j < i. load_less s r (es ! j)"
        by blast
      have "load_less s r e" using i(3) ce by (rule load_less_le_trans)
      then have "\<forall>j < Suc i. load_less s r ((e # es) ! j)"
        using i(4) by (auto simp: nth_Cons split: nat.splits)
      with i(1,2,3) show ?thesis by (intro disjI2 exI [of _ "Suc i"]) simp
    qed
    with r re same show ?thesis by auto
  qed
qed

lemma select_loop_nonempty:
  "\<exists>i < length (e # es). tracks s (select_loop s (e # es) selection_init) ((e # es) ! i) \<and>
     (\<forall>j < length (e # es). load_le s ((e # es) ! i) ((e # es) ! j)) \<and>
     (\<forall>j < i. load_less s ((e # es) ! i) ((e # es) ! j))"
proof -
  from select_loop_tracks [OF select_step_init [of s e], where es = es] obtain r where
    r: "tracks s (select_loop s (e # es) selection_init) r" "load_le s r e"
       "\<forall>x \<in> set es. load_le s r x"
       "r = e \<or> (\<exists>i < length es. r = es ! i \<and> load_less s r e \<and> (\<forall>j < i. load_less s r (es ! j)))"
    by auto
  have all: "\<forall>j < length (e # es). load_le s r ((e # es) ! j)"
    using r(2,3) by (auto simp: nth_Cons split: nat.splits)
  from r(4) show ?thesis
  proof
    assume "r = e"
    with r(1) all show ?thesis by (intro exI [of _ 0]) simp
  next
    assume "\<exists>i < length es. r = es ! i \<and> load_less s r e \<and> (\<forall>j < i. load_less s r (es ! j))"
    then obtain i where i: "i < length es" "r = es ! i" "load_less s r e" "\<forall>j < i. load_less s r (es ! j)"
      by blast
    have "\<forall>j < Suc i. load_less s r ((e # es) ! j)"
      using i(3,4) by (auto simp: nth_Cons split: nat.splits)
    with i(1,2) r(1) all show ?thesis by (intro exI [of _ "Suc i"]) simp
  qed
qed

lemmas example_defs =
  example_db_def E1_def E2_def Engineering_def Research_def example_task_def
  example_request_def example_externals_def

lemmas selector_defs =
  selectEmployee_def Employee_find_def select_step_def selection_init_def
  totalTasks_def pendingTasks_def load_le_def load_less_def Let_def

text \<open>
  Claim C1. For a department with at least one employee, \<open>selectEmployee\<close> returns the
  employee at some position \<open>i\<close> of the list that \<open>Employee.find\<close> returned, whose pair
  (all tasks, tasks pending or in progress) is least in the lexicographic order among
  all candidates and strictly less than that of every candidate before position \<open>i\<close>:
  the first least-loaded employee in iteration order.
\<close>

theorem selectEmployee_least_loaded:
  assumes "Employee_find s departmentId = es" and "es \<noteq> []"
  shows "\<exists>i < length es. selectEmployee s departmentId = Some (es ! i) \<and>
           (\<forall>j < length es. load_le s (es ! i) (es ! j)) \<and>
           (\<forall>j < i. load_less s (es ! i) (es ! j))"
proof -
  from assms(2) obtain e rest where es: "es = e # rest" by (cases es) auto
  from select_loop_nonempty [of e rest s] obtain i where
    i: "i < length es" "tracks s (select_loop s es selection_init) (es ! i)"
       "\<forall>j < length es. load_le s (es ! i) (es ! j)" "\<forall>j < i. load_less s (es ! i) (es ! j)"
    unfolding es by blast
  from i(2) have "selectEmployee s departmentId = Some (es ! i)"
    using assms(1) by (simp add: selectEmployee_def es tracks_def)
  with i show ?thesis by blast
qed

text \<open>
  The example of the specification: E1 and E2 have two tasks each, E1 one pending and
  E2 none; the tie on the total is broken by the pending count and E2 is selected.
\<close>

theorem selectEmployee_least_loaded_witness:
  "Employee_find example_db ''d1'' = [E1, E2] \<and> [E1, E2] \<noteq> [] \<and>
   totalTasks example_db E1 = 2 \<and> pendingTasks example_db E1 = 1 \<and>
   totalTasks example_db E2 = 2 \<and> pendingTasks example_db E2 = 0 \<and>
   selectEmployee example_db ''d1'' = Some ([E1, E2] ! 1) \<and>
   load_le example_db E2 E1 \<and> load_le example_db E2 E2 \<and> load_less example_db E2 E1"
  using selectEmployee_least_loaded [of example_db "''d1''" "[E1, E2]"]
  by (simp add: example_defs selector_defs)

text \<open>
  Claim C7. On a non-empty list of candidates the loop ends with some employee of the
  list selected, so the test \<^verbatim>\<open>!selectedEmployee\<close> of the fallback is false, and that
  employee is the result of \<open>selectEmployee\<close>.
\<close>

theorem selection_fallback_unreachable:
  assumes "es \<noteq> []"
  shows "\<exists>chosen. selectedEmployee (select_loop s es selection_init) = Some chosen \<and>
           chosen \<in> set es \<and>
           (Employee_find s departmentId = es \<longrightarrow> selectEmployee s departmentId = Some chosen)"
proof -
  from assms obtain e rest where es: "es = e # rest" by (cases es) auto
  from select_loop_nonempty [of e rest s] obtain i where
    i: "i < length es" "tracks s (select_loop s es selection_init) (es ! i)"
    unfolding es by blast
  then have sel: "selectedEmployee (select_loop s es selection_init) = Some (es ! i)"
    by (simp add: tracks_def)
  moreover have "es ! i \<in> set es" using i(1) by simp
  moreover have "Employee_find s departmentId = es \<longrightarrow> selectEmployee s departmentId = Some (es ! i)"
    using sel by (simp add: selectEmployee_def es)
  ultimately show ?thesis by blast
qed

theorem selection_fallback_unreachable_witness:
  "[E1, E2] \<noteq> [] \<and>
   selectedEmployee (select_loop example_db [E1, E2] selection_init) = Some E2 \<and>
   E2 \<in> set [E1, E2] \<and> Employee_find example_db ''d1'' = [E1, E2] \<and>
   selectEmployee example_db ''d1'' = Some E2"
  using selection_fallback_unreachable [of "[E1, E2]" example_db "''d1''"]
  by (simp add: example_defs selector_defs)

section \<open>Properties of the gates\<close>

lemma js_split_no_separator: "c \<notin> set xs \<Longrightarrow> js_split c xs = [xs]"
  by (induction xs) auto

lemma header_token_Bearer:
  "CHR '' '' \<notin> set token \<Longrightarrow> header_token (''Bearer '' @ token) = Some token"
  by (simp add: header_token_def js_index_def js_split_no_separator)

lemma header_token_empty: "header_token [] = None"
  by (simp add: header_token_def js_index_def)

lemma guarded_rejects: "guarded (Inl r) handler s = (r, s)"
  by (simp add: guarded_def)

lemmas gate_defs = jwtAuthMiddleware_def adminAuthMiddleware_def

lemmas example_jwt_simps =
  example_jwt_def user_payload_def admin_payload_def payload.extend_def decoded.fields_def

text \<open>
  Claim C2, as the code has it. \<open>jwtAuthMiddleware\<close> sends, without calling
  \<^verbatim>\<open>next\<close>: 401 \<^verbatim>\<open>No token provided\<close> for an absent or empty header; 401 \<^verbatim>\<open>Invalid
  token format\<close> for a non-empty header whose \<^verbatim>\<open>split(' ')[1]\<close> is absent or empty; 401
  \<^verbatim>\<open>Invalid token.\<close> for a token that \<^verbatim>\<open>jwt.verify\<close> rejects. \<open>adminAuthMiddleware\<close>
  sends 401 \<^verbatim>\<open>No token provided\<close> both for an absent header and for a header whose
  \<^verbatim>\<open>split(' ')[1]\<close> is absent or empty, and status 400 with \<^verbatim>\<open>Invalid token\<close> and the
  error's message for a token that \<^verbatim>\<open>jwt.verify\<close> rejects. A route whose gate sent a
  response answers with it and leaves the store as it was.
\<close>

theorem gate_rejections:
  "jwtAuthMiddleware jwt secret clock None =
     Inl (Response 401 (Message ''Access denied. No token provided.'')) \<and>
   jwtAuthMiddleware jwt secret clock (Some []) =
     Inl (Response 401 (Message ''Access denied. No token provided.'')) \<and>
   (h1 \<noteq> [] \<and> (header_token h1 = None \<or> header_token h1 = Some []) \<longrightarrow>
      jwtAuthMiddleware jwt secret clock (Some h1) =
        Inl (Response 401 (Message ''Access denied. Invalid token format.''))) \<and>
   (header_token h2 = Some t2 \<and> t2 \<noteq> [] \<and> jwt_verify jwt t2 secret clock = Inl err2 \<longrightarrow>
      jwtAuthMiddleware jwt secret clock (Some h2) = Inl (Response 401 (Message ''Invalid token.''))) \<and>
   adminAuthMiddleware jwt secret clock None =
     Inl (Response 401 (Message ''Access denied. No token provided.'')) \<and>
   (header_token h3 = None \<or> header_token h3 = Some [] \<longrightarrow>
      adminAuthMiddleware jwt secret clock (Some h3) =
        Inl (Response 401 (Message ''Access denied. No token provided.''))) \<and>
   (header_token h4 = Some t4 \<and> t4 \<noteq> [] \<and> jwt_verify jwt t4 secret clock = Inl err4 \<longrightarrow>
      adminAuthMiddleware jwt secret clock (Some h4) =
        Inl (Response 400 (MessageError ''Invalid token'' err4))) \<and>
   (jwtAuthMiddleware jwt secret clock (req_authorization req) = Inl r \<longrightarrow>
      route_post_task jwt secret clock x now fresh req s = (r, s)) \<and>
   (adminAuthMiddleware jwt secret clock (req_authorization req') = Inl r' \<longrightarrow>
      route_delete_task jwt secret clock x req' s = (r', s))"
proof -
  have user_absent: "jwtAuthMiddleware jwt secret clock None =
      Inl (Response 401 (Message ''Access denied. No token provided.''))"
    and user_empty: "jwtAuthMiddleware jwt secret clock (Some []) =
      Inl (Response 401 (Message ''Access denied. No token provided.''))"
    by (simp_all add: jwtAuthMiddleware_def)
  have user_format: "h1 \<noteq> [] \<and> (header_token h1 = None \<or> header_token h1 = Some []) \<longrightarrow>
      jwtAuthMiddleware jwt secret clock (Some h1) =
        Inl (Response 401 (Message ''Access denied. Invalid token format.''))"
    by (auto simp: jwtAuthMiddleware_def)
  have user_invalid: "header_token h2 = Some t2 \<and> t2 \<noteq> [] \<and> jwt_verify jwt t2 secret clock = Inl err2 \<longrightarrow>
      jwtAuthMiddleware jwt secret clock (Some h2) = Inl (Response 401 (Message ''Invalid token.''))"
    by (auto simp: jwtAuthMiddleware_def header_token_empty)
  have admin_absent: "adminAuthMiddleware jwt secret clock None =
      Inl (Response 401 (Message ''Access denied. No token provided.''))"
    by (simp add: adminAuthMiddleware_def)
  have admin_format: "header_token h3 = None \<or> header_token h3 = Some [] \<longrightarrow>
      adminAuthMiddleware jwt secret clock (Some h3) =
        Inl (Response 401 (Message ''Access denied. No token provided.''))"
    by (auto simp: adminAuthMiddleware_def)
  have admin_invalid: "header_token h4 = Some t4 \<and> t4 \<noteq> [] \<and> jwt_verify jwt t4 secret clock = Inl err4 \<longrightarrow>
      adminAuthMiddleware jwt secret clock (Some h4) =
        Inl (Response 400 (MessageError ''Invalid token'' err4))"
    by (auto simp: adminAuthMiddleware_def)
  have post: "jwtAuthMiddleware jwt secret clock (req_authorization req) = Inl r \<longrightarrow>
      route_post_task jwt secret clock x now fresh req s = (r, s)"
    by (simp add: route_post_task_def guarded_rejects)
  have del: "adminAuthMiddleware jwt secret clock (req_authorization req') = Inl r' \<longrightarrow>
      route_delete_task jwt secret clock x req' s = (r', s)"
    by (simp add: route_delete_task_def guarded_rejects)
  from user_absent user_empty user_format user_invalid admin_absent admin_format admin_invalid post del
  show ?thesis by blast
qed

theorem gate_rejections_witness:
  "''Bearer'' \<noteq> [] \<and> header_token ''Bearer'' = None \<and>
   jwtAuthMiddleware example_jwt (Some ''k'') 10 (Some ''Bearer'') =
     Inl (Response 401 (Message ''Access denied. Invalid token format.'')) \<and>
   header_token ''Bearer garbage'' = Some ''garbage'' \<and>
   jwt_verify example_jwt ''garbage'' (Some ''k'') 10 = Inl ''jwt malformed'' \<and>
   jwtAuthMiddleware example_jwt (Some ''k'') 10 (Some ''Bearer garbage'') =
     Inl (Response 401 (Message ''Invalid token.'')) \<and>
   header_token ''Bearer '' = Some [] \<and>
   adminAuthMiddleware example_jwt (Some ''k'') 10 (Some ''Bearer '') =
     Inl (Response 401 (Message ''Access denied. No token provided.'')) \<and>
   adminAuthMiddleware example_jwt (Some ''k'') 10 (Some ''Bearer garbage'') =
     Inl (Response 400 (MessageError ''Invalid token'' ''jwt malformed'')) \<and>
   jwtAuthMiddleware example_jwt (Some ''k'') 10
       (req_authorization (example_request\<lparr>req_authorization := None\<rparr>)) =
     Inl (Response 401 (Message ''Access denied. No token provided.'')) \<and>
   route_post_task example_jwt (Some ''k'') 10 example_externals 1000 ''t9''
       (example_request\<lparr>req_authorization := None\<rparr>) example_db =
     (Response 401 (Message ''Access denied. No token provided.''), example_db) \<and>
   adminAuthMiddleware example_jwt (Some ''k'') 10
       (req_authorization (example_request\<lparr>req_authorization := Some ''Bearer garbage''\<rparr>)) =
     Inl (Response 400 (MessageError ''Invalid token'' ''jwt malformed'')) \<and>
   route_delete_task example_jwt (Some ''k'') 10 example_externals
       (example_request\<lparr>req_authorization := Some ''Bearer garbage''\<rparr>) example_db =
     (Response 400 (MessageError ''Invalid token'' ''jwt malformed''), example_db)"
  using gate_rejections [where jwt = example_jwt and secret = "Some ''k''" and clock = 10
      and ?h1.0 = "''Bearer''" and ?h2.0 = "''Bearer garbage''" and ?t2.0 = "''garbage''"
      and ?err2.0 = "''jwt malformed''" and ?h3.0 = "''Bearer ''"
      and ?h4.0 = "''Bearer garbage''" and ?t4.0 = "''garbage''" and ?err4.0 = "''jwt malformed''"
      and req = "example_request\<lparr>req_authorization := None\<rparr>"
      and r = "Response 401 (Message ''Access denied. No token provided.'')"
      and req' = "example_request\<lparr>req_authorization := Some ''Bearer garbage''\<rparr>"
      and r' = "Response 400 (MessageError ''Invalid token'' ''jwt malformed'')"
      and x = example_externals and now = 1000 and fresh = "''t9''" and s = example_db]
  by (simp add: header_token_def js_index_def example_jwt_simps example_request_def)

text \<open>
  Against claim C2 as it is worded: the admin gate answers a header without a second piece exactly as it answers an
  absent header, and a token that fails verification with status 400, not 401; the user
  gate answers a present but empty header as it answers an absent one.
\<close>

theorem gate_kinds_counterexample:
  "adminAuthMiddleware example_jwt (Some ''k'') 10 None =
     Inl (Response 401 (Message ''Access denied. No token provided.'')) \<and>
   adminAuthMiddleware example_jwt (Some ''k'') 10 (Some ''Bearer'') =
     Inl (Response 401 (Message ''Access denied. No token provided.'')) \<and>
   adminAuthMiddleware example_jwt (Some ''k'') 10 (Some ''Bearer garbage'') =
     Inl (Response 400 (MessageError ''Invalid token'' ''jwt malformed'')) \<and>
   jwtAuthMiddleware example_jwt (Some ''k'') 10 (Some '''') =
     Inl (Response 401 (Message ''Access denied. No token provided.''))"
  by (simp add: gate_defs header_token_def js_index_def example_jwt_simps)

text \<open>
  Claim C3. For a request whose token verifies and whose \<open>isAdmin\<close> claim is
  \<^verbatim>\<open>false\<close> or absent, \<open>adminAuthMiddleware\<close> sends 403 \<^verbatim>\<open>Admins only\<close> (neither the
  401 nor the 400 of a failed authentication) and the handler of an admin route is not
  run, while \<open>jwtAuthMiddleware\<close> calls \<^verbatim>\<open>next\<close> with the decoded claims attached.
\<close>

theorem non_admin_forbidden:
  assumes "header_token h = Some token" and "token \<noteq> []"
    and "jwt_verify jwt token secret clock = Inr claims"
    and "isAdmin claims = JBool False \<or> isAdmin claims = JUndefined"
  shows "adminAuthMiddleware jwt secret clock (Some h) =
           Inl (Response 403 (Message ''Access denied. Admins only.'')) \<and>
         jwtAuthMiddleware jwt secret clock (Some h) = Inr claims \<and>
         (req_authorization req = Some h \<longrightarrow>
            route_delete_task jwt secret clock x req s =
              (Response 403 (Message ''Access denied. Admins only.''), s))"
proof -
  from assms(4) have falsy: "\<not> truthy (isAdmin claims)" by auto
  have h: "h \<noteq> []" using assms(1) by (auto simp: header_token_empty)
  have admin: "adminAuthMiddleware jwt secret clock (Some h) =
      Inl (Response 403 (Message ''Access denied. Admins only.''))"
    using assms(1-3) falsy by (simp add: adminAuthMiddleware_def)
  moreover have "jwtAuthMiddleware jwt secret clock (Some h) = Inr claims"
    using assms(1-3) h by (simp add: jwtAuthMiddleware_def)
  moreover have "req_authorization req = Some h \<longrightarrow>
      route_delete_task jwt secret clock x req s =
        (Response 403 (Message ''Access denied. Admins only.''), s)"
    using admin by (simp add: route_delete_task_def guarded_rejects)
  ultimately show ?thesis by blast
qed

theorem non_admin_forbidden_witness:
  "header_token ''Bearer hdr.user.sig'' = Some ''hdr.user.sig'' \<and> ''hdr.user.sig'' \<noteq> [] \<and>
   jwt_verify example_jwt ''hdr.user.sig'' (Some ''k'') 10 =
     Inr (payload.extend user_payload (decoded.fields 0 3600)) \<and>
   isAdmin (payload.extend user_payload (decoded.fields 0 3600)) = JBool False \<and>
   adminAuthMiddleware example_jwt (Some ''k'') 10 (Some ''Bearer hdr.user.sig'') =
     Inl (Response 403 (Message ''Access denied. Admins only.'')) \<and>
   jwtAuthMiddleware example_jwt (Some ''k'') 10 (Some ''Bearer hdr.user.sig'') =
     Inr (payload.extend user_payload (decoded.fields 0 3600)) \<and>
   req_authorization example_request = Some ''Bearer hdr.user.sig'' \<and>
   route_delete_task example_jwt (Some ''k'') 10 example_externals example_request example_db =
     (Response 403 (Message ''Access denied. Admins only.''), example_db)"
  using non_admin_forbidden [where h = "''Bearer hdr.user.sig''" and token = "''hdr.user.sig''"
      and jwt = example_jwt and secret = "Some ''k''" and clock = 10
      and claims = "payload.extend user_payload (decoded.fields 0 3600)"
      and req = example_request and x = example_externals and s = example_db]
  by (simp add: header_token_def js_index_def example_jwt_simps example_request_def)

text \<open>
  Claim C8. With a token package that keeps its contract, let \<open>generateToken\<close> issue a
  token for the payload \<open>p\<close> at the time \<open>issued\<close>. Given the header
  \<^verbatim>\<open>Bearer <token>\<close> at any time before \<open>issued + 3600\<close>, the one-hour expiry,
  \<open>jwtAuthMiddleware\<close> calls \<^verbatim>\<open>next\<close> with claims whose user id, email and admin flag
  are those of \<open>p\<close>, stamped with the issue time and the expiry.
\<close>

theorem token_round_trip:
  assumes "jwt_contract jwt"
    and "generateToken jwt secret issued p = Inr token"
    and "clock < issued + 3600"
  shows "\<exists>claims. jwtAuthMiddleware jwt secret clock (Some (''Bearer '' @ token)) = Inr claims \<and>
           userId claims = userId p \<and> email claims = email p \<and> isAdmin claims = isAdmin p \<and>
           c_iat claims = issued \<and> c_exp claims = issued + 3600"
proof -
  from assms(2) have signed: "jwt_sign jwt p secret ''1h'' issued = Inr token"
    by (simp add: generateToken_def)
  with assms(1) have shape: "token \<noteq> []" "CHR '' '' \<notin> set token"
    unfolding jwt_contract_def by blast+
  from assms(1) signed assms(3) have verified:
    "jwt_verify jwt token secret clock = Inr (payload.extend p (decoded.fields issued (issued + 3600)))"
    unfolding jwt_contract_def by blast
  have "header_token (''Bearer '' @ token) = Some token"
    using shape(2) by (rule header_token_Bearer)
  then have "jwtAuthMiddleware jwt secret clock (Some (''Bearer '' @ token)) =
      Inr (payload.extend p (decoded.fields issued (issued + 3600)))"
    using shape(1) verified by (simp add: jwtAuthMiddleware_def)
  then show ?thesis by (simp add: payload.extend_def decoded.fields_def)
qed

lemma example_jwt_contract: "jwt_contract example_jwt"
  unfolding jwt_contract_def
  by (auto simp: example_jwt_def user_payload_def admin_payload_def split: if_splits)

theorem token_round_trip_witness:
  "jwt_contract example_jwt \<and>
   generateToken example_jwt (Some ''k'') 0 user_payload = Inr ''hdr.user.sig'' \<and>
   (3599::int) < 0 + 3600 \<and>
   (\<exists>claims. jwtAuthMiddleware example_jwt (Some ''k'') 3599 (Some ''Bearer hdr.user.sig'') = Inr claims \<and>
      userId claims = ''e1'' \<and> email claims = ''asha@example.org'' \<and> isAdmin claims = JBool False \<and>
      c_iat claims = 0 \<and> c_exp claims = 3600)"
  using token_round_trip [where jwt = example_jwt and secret = "Some ''k''" and issued = 0
      and p = user_payload and token = "''hdr.user.sig''" and clock = 3599]
  by (simp add: example_jwt_contract)
     (simp add: generateToken_def example_jwt_def user_payload_def)

section \<open>Properties of the task routes\<close>

subsection \<open>Creation\<close>

lemma selectEmployee_None: "selectEmployee s departmentId = None \<longleftrightarrow> Employee_find s departmentId = []"
  by (simp add: selectEmployee_def split: list.splits option.splits)

lemma selectEmployee_member:
  assumes "selectEmployee s departmentId = Some e"
  shows "e \<in> set (employees s) \<and> e_departmentId e = departmentId"
proof (cases "Employee_find s departmentId")
  case Nil
  with assms show ?thesis by (simp add: selectEmployee_def)
next
  case (Cons first rest)
  from select_loop_nonempty [of first rest s] obtain i where
    i: "i < length (first # rest)" "tracks s (select_loop s (first # rest) selection_init) ((first # rest) ! i)"
    by blast
  then have "selectEmployee s departmentId = Some ((first # rest) ! i)"
    using Cons by (simp add: selectEmployee_def tracks_def)
  with assms have "e = (first # rest) ! i" by simp
  with i(1) have "e \<in> set (Employee_find s departmentId)"
    unfolding Cons by (metis nth_mem)
  then show ?thesis by (simp add: Employee_find_def)
qed

lemma find_distinct_id:
  "distinct (map e_id es) \<Longrightarrow> e \<in> set es \<Longrightarrow> find (\<lambda>e'. e_id e' = e_id e) es = Some e"
  by (induction es) (auto simp: image_iff)


lemma new_Task_fields:
  "new_Task x fresh title description departmentId assignedTo dueDate = Inr task \<Longrightarrow>
     t_id task = fresh \<and> t_departmentId task = departmentId \<and> t_assignedTo task = assignedTo \<and>
     t_status task = ''pending'' \<and> t_dueDate task = dueDate"
  by (auto simp: new_Task_def split: sum.splits)

text \<open>The two outcomes of the creation handler: nothing stored, or one task appended.\<close>

lemma post_task_cases:
  assumes "post_task x now fresh req s = (resp, s')"
  obtains (unchanged) "s' = s"
  | (created) task department chosen where
      "s' = s\<lparr>tasks := tasks s @ [task]\<rparr>" and "resp = Response 201 (TaskJson task)"
      and "findDepartmentByName s (req_departmentName req) = Inr department"
      and "selectEmployee s (d_id department) = Some chosen"
      and "new_Task x fresh (req_title req) (req_description req) (d_id department) (e_id chosen)
             (plusDays x now 7) = Inr task"
  using assms
  by (auto simp: post_task_def post_task_try_def Let_def split: sum.splits option.splits if_splits)

text \<open>
  Claim C4. \<open>selectEmployee\<close> returns \<^verbatim>\<open>null\<close> exactly when no employee has the
  department's id; for a request that names such a department the creation handler
  answers 500 \<^verbatim>\<open>Unable to assign task\<close> and the store is unchanged.
\<close>

theorem no_employee_no_task:
  "(selectEmployee s departmentId = None \<longleftrightarrow> Employee_find s departmentId = []) \<and>
   (findDepartmentByName s (req_departmentName req) = Inr department \<and>
    Employee_find s (d_id department) = [] \<longrightarrow>
      post_task x now fresh req s = (Response 500 (Message ''Unable to assign task''), s))"
proof -
  have "findDepartmentByName s (req_departmentName req) = Inr department \<and>
      Employee_find s (d_id department) = [] \<longrightarrow>
        post_task x now fresh req s = (Response 500 (Message ''Unable to assign task''), s)"
    by (simp add: post_task_def post_task_try_def selectEmployee_def)
  then show ?thesis by (simp add: selectEmployee_None)
qed

theorem no_employee_no_task_witness:
  "selectEmployee example_db ''d2'' = None \<and> Employee_find example_db ''d2'' = [] \<and>
   findDepartmentByName example_db ''Research'' = Inr Research \<and>
   post_task example_externals 1000 ''t9'' (example_request\<lparr>req_departmentName := ''Research''\<rparr>)
       example_db =
     (Response 500 (Message ''Unable to assign task''), example_db)"
  using no_employee_no_task [where s = example_db and departmentId = "''d2''"
      and req = "example_request\<lparr>req_departmentName := ''Research''\<rparr>" and department = Research
      and x = example_externals and now = 1000 and fresh = "''t9''"]
  by (simp add: example_defs findDepartmentByName_def Employee_find_def)


lemmas handler_defs =
  post_task_def post_task_try_def new_Task_def required_string_def
  findDepartmentByName_def

lemma example_post_task:
  "post_task example_externals 1000 ''t9'' example_request example_db =
     (Response 201 (TaskJson example_created), example_db\<lparr>tasks := tasks example_db @ [example_created]\<rparr>)"
  by (simp add: handler_defs example_defs selector_defs example_created_def)


text \<open>
  Claim C6. In a store whose employee ids are unique, every task that the creation
  handler stores has the \<open>departmentId\<close> of the employee that its \<open>assignedTo\<close> refers to.
\<close>

theorem created_task_matches_assignee:
  assumes "distinct (map e_id (employees s))"
    and "post_task x now fresh req s = (resp, s')"
  shows "s' = s \<or>
         (\<exists>task assignee.
            s' = s\<lparr>tasks := tasks s @ [task]\<rparr> \<and> resp = Response 201 (TaskJson task) \<and>
            Employee_findById s' (t_assignedTo task) = Some assignee \<and>
            e_departmentId assignee = t_departmentId task)"
  using assms(2)
proof (cases rule: post_task_cases)
  case unchanged
  then show ?thesis by simp
next
  case (created task department chosen)
  from selectEmployee_member [OF created(4)] have
    mem: "chosen \<in> set (employees s)" and dept: "e_departmentId chosen = d_id department"
    by simp_all
  from new_Task_fields [OF created(5)] have
    t: "t_departmentId task = d_id department" "t_assignedTo task = e_id chosen"
    by simp_all
  have "Employee_findById s' (t_assignedTo task) = Some chosen"
    using find_distinct_id [OF assms(1) mem] by (simp add: Employee_findById_def created(1) t)
  moreover have "e_departmentId chosen = t_departmentId task"
    using dept t by simp
  ultimately show ?thesis using created(1,2) by blast
qed

theorem created_task_matches_assignee_witness:
  "distinct (map e_id (employees example_db)) \<and>
   post_task example_externals 1000 ''t9'' example_request example_db =
     (Response 201 (TaskJson example_created),
      example_db\<lparr>tasks := tasks example_db @ [example_created]\<rparr>) \<and>
   Employee_findById (example_db\<lparr>tasks := tasks example_db @ [example_created]\<rparr>)
     (t_assignedTo example_created) = Some E2 \<and>
   e_departmentId E2 = t_departmentId example_created"
  using created_task_matches_assignee [where x = example_externals and now = 1000
      and fresh = "''t9''" and req = example_request and s = example_db
      and resp = "Response 201 (TaskJson example_created)"
      and s' = "example_db\<lparr>tasks := tasks example_db @ [example_created]\<rparr>"]
  by (simp add: example_post_task)
     (simp add: example_created_def example_defs Employee_findById_def)

subsection \<open>Update\<close>

lemma length_update_first: "length (update_first P f ys) = length ys"
  by (induction ys) auto

lemma nth_update_first:
  "k < length ys \<Longrightarrow> update_first P f ys ! k = ys ! k \<or> update_first P f ys ! k = f (ys ! k)"
proof (induction ys arbitrary: k)
  case Nil
  then show ?case by simp
next
  case (Cons y ys)
  then show ?case by (cases k) auto
qed

lemma apply_modified_frame:
  "t_id (apply_modified m t) = t_id t \<and> t_departmentId (apply_modified m t) = t_departmentId t \<and>
   t_assignedTo (apply_modified m t) = t_assignedTo t"
  by (simp add: apply_modified_def)

lemma assignments_falsy:
  assumes "assignments x req = Inr m"
  shows "(\<not> truthy (req_title req) \<longrightarrow> m_title m = None) \<and>
         (\<not> truthy (req_description req) \<longrightarrow> m_description m = None) \<and>
         (\<not> truthy (req_status req) \<longrightarrow> m_status m = None) \<and>
         (\<not> truthy (req_dueDate req) \<longrightarrow> m_dueDate m = None)"
  using assms
  by (auto simp: assignments_def assign_string_def assign_status_def assign_date_def
      split: sum.splits if_splits option.splits)

lemma apply_modified_unmodified:
  "(m_title m = None \<longrightarrow> t_title (apply_modified m t) = t_title t) \<and>
   (m_description m = None \<longrightarrow> t_description (apply_modified m t) = t_description t) \<and>
   (m_status m = None \<longrightarrow> t_status (apply_modified m t) = t_status t) \<and>
   (m_dueDate m = None \<longrightarrow> t_dueDate (apply_modified m t) = t_dueDate t)"
  by (simp add: apply_modified_def)

lemma put_task_cases:
  assumes "put_task x req s = (resp, s')"
  obtains (unchanged) "s' = s"
  | (saved) m P where "assignments x req = Inr m"
      and "s' = s\<lparr>tasks := update_first P (apply_modified m) (tasks s)\<rparr>"
  using assms
  by (auto simp: put_task_def put_task_try_def split: sum.splits option.splits)

lemma put_task_frame:
  assumes "put_task x req s = (resp, s')"
  shows "departments s' = departments s \<and> employees s' = employees s \<and>
         length (tasks s') = length (tasks s) \<and>
         (\<forall>k < length (tasks s).
            t_id (tasks s' ! k) = t_id (tasks s ! k) \<and>
            t_departmentId (tasks s' ! k) = t_departmentId (tasks s ! k) \<and>
            t_assignedTo (tasks s' ! k) = t_assignedTo (tasks s ! k) \<and>
            (\<not> truthy (req_title req) \<longrightarrow> t_title (tasks s' ! k) = t_title (tasks s ! k)) \<and>
            (\<not> truthy (req_description req) \<longrightarrow>
               t_description (tasks s' ! k) = t_description (tasks s ! k)) \<and>
            (\<not> truthy (req_status req) \<longrightarrow> t_status (tasks s' ! k) = t_status (tasks s ! k)) \<and>
            (\<not> truthy (req_dueDate req) \<longrightarrow> t_dueDate (tasks s' ! k) = t_dueDate (tasks s ! k)))"
  using assms
proof (cases rule: put_task_cases)
  case unchanged
  then show ?thesis by simp
next
  case (saved m P)
  note falsy = assignments_falsy [OF saved(1)]
  have "t_id (tasks s' ! k) = t_id (tasks s ! k) \<and>
      t_departmentId (tasks s' ! k) = t_departmentId (tasks s ! k) \<and>
      t_assignedTo (tasks s' ! k) = t_assignedTo (tasks s ! k) \<and>
      (\<not> truthy (req_title req) \<longrightarrow> t_title (tasks s' ! k) = t_title (tasks s ! k)) \<and>
      (\<not> truthy (req_description req) \<longrightarrow>
         t_description (tasks s' ! k) = t_description (tasks s ! k)) \<and>
      (\<not> truthy (req_status req) \<longrightarrow> t_status (tasks s' ! k) = t_status (tasks s ! k)) \<and>
      (\<not> truthy (req_dueDate req) \<longrightarrow> t_dueDate (tasks s' ! k) = t_dueDate (tasks s ! k))"
    if k: "k < length (tasks s)" for k
  proof -
    from nth_update_first [OF k, of P "apply_modified m"]
    have "tasks s' ! k = tasks s ! k \<or> tasks s' ! k = apply_modified m (tasks s ! k)"
      by (simp add: saved(2))
    then show ?thesis
    proof
      assume "tasks s' ! k = tasks s ! k"
      then show ?thesis by simp
    next
      assume "tasks s' ! k = apply_modified m (tasks s ! k)"
      then show ?thesis
        using falsy apply_modified_frame [of m "tasks s ! k"]
          apply_modified_unmodified [of m "tasks s ! k"]
        by simp
    qed
  qed
  then show ?thesis by (simp add: saved(2) length_update_first)
qed

text \<open>
  Claim C10. Whatever the update route answers, it leaves the departments and the
  employees as they were and stores as many tasks as before; each stored task keeps its
  id, its \<open>departmentId\<close> and its \<open>assignedTo\<close>, and keeps its title, description,
  status or due date when that property of the body is absent or falsy.
\<close>

theorem update_route_frame:
  assumes "route_put_task jwt secret clock x req s = (resp, s')"
  shows "departments s' = departments s \<and> employees s' = employees s \<and>
         length (tasks s') = length (tasks s) \<and>
         (\<forall>k < length (tasks s).
            t_id (tasks s' ! k) = t_id (tasks s ! k) \<and>
            t_departmentId (tasks s' ! k) = t_departmentId (tasks s ! k) \<and>
            t_assignedTo (tasks s' ! k) = t_assignedTo (tasks s ! k) \<and>
            (\<not> truthy (req_title req) \<longrightarrow> t_title (tasks s' ! k) = t_title (tasks s ! k)) \<and>
            (\<not> truthy (req_description req) \<longrightarrow>
               t_description (tasks s' ! k) = t_description (tasks s ! k)) \<and>
            (\<not> truthy (req_status req) \<longrightarrow> t_status (tasks s' ! k) = t_status (tasks s ! k)) \<and>
            (\<not> truthy (req_dueDate req) \<longrightarrow> t_dueDate (tasks s' ! k) = t_dueDate (tasks s ! k)))"
proof (cases "jwtAuthMiddleware jwt secret clock (req_authorization req)")
  case (Inl r)
  with assms have "s' = s" by (simp add: route_put_task_def guarded_def)
  then show ?thesis by simp
next
  case (Inr user)
  with assms have "put_task x req s = (resp, s')" by (simp add: route_put_task_def guarded_def)
  then show ?thesis by (rule put_task_frame)
qed


lemma example_put_task:
  "route_put_task example_jwt (Some ''k'') 10 example_externals example_request example_db =
     (Response 200 (TaskJson example_updated),
      example_db\<lparr>tasks := example_updated # tl (tasks example_db)\<rparr>)"
  by (simp add: route_put_task_def guarded_def jwtAuthMiddleware_def header_token_def js_index_def
      example_jwt_def user_payload_def payload.extend_def decoded.fields_def
      put_task_def put_task_try_def Task_findOne_def assignments_def assign_string_def
      assign_status_def assign_date_def apply_modified_def findDepartmentByName_def
      example_defs example_updated_def)

theorem update_route_frame_witness:
  "route_put_task example_jwt (Some ''k'') 10 example_externals example_request example_db =
     (Response 200 (TaskJson example_updated),
      example_db\<lparr>tasks := example_updated # tl (tasks example_db)\<rparr>) \<and>
   (0::nat) < length (tasks example_db) \<and>
   t_title (tasks example_db ! 0) = ''Report'' \<and> t_title example_updated = ''Audit'' \<and>
   t_departmentId example_updated = t_departmentId (tasks example_db ! 0) \<and>
   t_assignedTo example_updated = t_assignedTo (tasks example_db ! 0) \<and>
   \<not> truthy (req_status example_request) \<and>
   t_status example_updated = t_status (tasks example_db ! 0) \<and>
   \<not> truthy (req_dueDate example_request) \<and>
   t_dueDate example_updated = t_dueDate (tasks example_db ! 0)"
  using update_route_frame [where jwt = example_jwt and secret = "Some ''k''" and clock = 10
      and x = example_externals and req = example_request and s = example_db
      and resp = "Response 200 (TaskJson example_updated)"
      and s' = "example_db\<lparr>tasks := example_updated # tl (tasks example_db)\<rparr>"]
  by (simp add: example_put_task)
     (simp add: example_defs example_updated_def)

section \<open>Properties of password hashing\<close>






end
